theory Spec2Isabelle
  imports Complex_Main "HOL-Library.Log_Nat" "HOL-Library.Sublist"
begin

section \<open>Strings, exceptions and Python values\<close>

text \<open>
  A Python \<open>str\<close> is a sequence of Unicode code points and \<open>len\<close> counts code points,
  so a string is modelled as a list of code points (natural numbers).  The rows the
  plugins return hold Chinese and English text, and the JSON encoder is always called with
  \<open>ensure_ascii=False\<close>, which is why the eight-bit characters of HOL are not enough.
  ASCII literals of the source are written \<open>asc ''...''\<close>.
\<close>

type_synonym str = "nat list"

abbreviation (input) asc :: "string \<Rightarrow> str" where
  "asc s \<equiv> map of_char s"

abbreviation (input) ch :: "char \<Rightarrow> nat" where
  "ch c \<equiv> of_char c"

text \<open>\<open>sep.join(xs)\<close>.\<close>

fun join :: "str \<Rightarrow> str list \<Rightarrow> str" where
  "join sep [] = []"
| "join sep [x] = x"
| "join sep (x # y # ys) = x @ sep @ join sep (y # ys)"

text \<open>\<open>s.startswith(p)\<close> is \<^const>\<open>prefix\<close> \<open>p s\<close>; \<open>p in s\<close> for strings is a search for a
  contiguous occurrence.\<close>

fun contains :: "str \<Rightarrow> str \<Rightarrow> bool" where
  "contains [] p = (p = [])"
| "contains (c # cs) p = (prefix p (c # cs) \<or> contains cs p)"

text \<open>\<open>str.lower()\<close> on the letters A to Z.  Every other code point is left as it is: the
  only characters outside A-Z that Unicode lower-cases to an ASCII letter are U+212A (to k)
  and U+0130 (to i followed by U+0307), and neither letter occurs in the keywords the
  error classifier looks for.\<close>

definition lower_char :: "nat \<Rightarrow> nat" where
  "lower_char c = (if 65 \<le> c \<and> c \<le> 90 then c + 32 else c)"

definition lower :: "str \<Rightarrow> str" where
  "lower s = map lower_char s"

text \<open>\<open>str(n)\<close> and \<open>repr(n)\<close> of an integer: decimal digits, most significant first.\<close>

fun str_nat :: "nat \<Rightarrow> str" where
  "str_nat n = (if n < 10 then [48 + n] else str_nat (n div 10) @ [48 + n mod 10])"

declare str_nat.simps [simp del]

definition str_int :: "int \<Rightarrow> str" where
  "str_int i = (if i < 0 then ch CHR ''-'' # str_nat (nat (- i)) else str_nat (nat i))"

text \<open>\<open>'%0wd' % n\<close> for a non-negative \<open>n\<close>.\<close>

definition zero_pad :: "nat \<Rightarrow> nat \<Rightarrow> str" where
  "zero_pad w n = replicate (w - length (str_nat n)) (ch CHR ''0'') @ str_nat n"

text \<open>
  Exceptions are values: the class and \<open>str(e)\<close>.  \<open>KeyboardInterrupt\<close> stands for the
  classes that derive from \<open>BaseException\<close> but not from \<open>Exception\<close>, which an
  \<open>except Exception\<close> clause does not catch.
\<close>

datatype exc_class =
    FileNotFoundError | ValueError | RuntimeError | TypeError | IndexError
  | JSONDecodeError | RecursionError | DuckDBError | KeyboardInterrupt

datatype exc = Exc (exc_cls: exc_class) (exc_str: str)

definition is_Exception :: "exc \<Rightarrow> bool" where
  "is_Exception e = (exc_cls e \<noteq> KeyboardInterrupt)"

text \<open>
  The values a query row can hold.  \<open>datetime.datetime\<close>, \<open>datetime.date\<close> and
  \<open>datetime.time\<close> are three classes; \<open>datetime\<close> derives from \<open>date\<close>, so
  \<open>isinstance(x, datetime)\<close> holds for the first only.  A float is carried by the text
  the encoder prints for it (no arithmetic is done on row values).  A dictionary keeps
  insertion order and is an association list with string keys.  \<open>POther c\<close> is an object
  of any other class \<open>c\<close> (Decimal, bytes, UUID, ...).
\<close>

record datetime =
  dt_year :: nat
  dt_month :: nat
  dt_day :: nat
  dt_hour :: nat
  dt_minute :: nat
  dt_second :: nat
  dt_microsecond :: nat
  dt_utcoffset :: "int option"

record date =
  d_year :: nat
  d_month :: nat
  d_day :: nat

record time =
  t_hour :: nat
  t_minute :: nat
  t_second :: nat
  t_microsecond :: nat

datatype pyval =
    PNone
  | PBool bool
  | PInt int
  | PFloat str
  | PStr str
  | PDatetime datetime
  | PDate date
  | PTime time
  | PList "pyval list"
  | PTuple "pyval list"
  | PDict "(str \<times> pyval) list"
  | POther str

text \<open>\<open>type(o).__name__\<close>.\<close>

fun class_name :: "pyval \<Rightarrow> str" where
  "class_name PNone = asc ''NoneType''"
| "class_name (PBool _) = asc ''bool''"
| "class_name (PInt _) = asc ''int''"
| "class_name (PFloat _) = asc ''float''"
| "class_name (PStr _) = asc ''str''"
| "class_name (PDatetime _) = asc ''datetime''"
| "class_name (PDate _) = asc ''date''"
| "class_name (PTime _) = asc ''time''"
| "class_name (PList _) = asc ''list''"
| "class_name (PTuple _) = asc ''tuple''"
| "class_name (PDict _) = asc ''dict''"
| "class_name (POther c) = c"

section \<open>Token estimate\<close>

definition TOKEN_LIMIT :: int where
  "TOKEN_LIMIT = 5000"

definition estimate_token_count :: "str \<Rightarrow> int" where
  "estimate_token_count text =
     (let average_chars_per_token = 3
      in (int (length text) + average_chars_per_token - 1) div average_chars_per_token)"

section \<open>Double-precision arithmetic\<close>

text \<open>
  \<open>TOKEN_LIMIT / token_estimate\<close>, \<open>current_size * ratio\<close> and \<open>... * 0.8\<close> are float
  operations.  A non-negative double is a pair of a 53-bit mantissa and an exponent, with
  value \<open>mant * 2 ^ expo\<close>; each operation returns the double nearest to the exact
  result, ties to the even mantissa, as IEEE 754 prescribes.  Exponent range and
  subnormals are left out: the operands here are lengths and counts of strings, far
  inside the normal range.
\<close>

record dbl =
  mant :: int
  expo :: int

text \<open>Nearest integer to \<open>n / d\<close>, ties to even, for \<open>0 \<le> n\<close> and \<open>0 < d\<close>.\<close>

definition round_half_even :: "int \<Rightarrow> int \<Rightarrow> int" where
  "round_half_even n d =
     (let q = n div d; r = n mod d
      in if 2 * r < d then q
         else if d < 2 * r then q + 1
         else if even q then q else q + 1)"

text \<open>The double nearest to \<open>(n / d) * 2 ^ x\<close>, for \<open>0 \<le> n\<close> and \<open>0 < d\<close>.\<close>

definition round_dbl :: "int \<Rightarrow> int \<Rightarrow> int \<Rightarrow> dbl" where
  "round_dbl n d x =
     (if n = 0 then \<lparr>mant = 0, expo = 0\<rparr>
      else
        let s = 53 - bitlen n + bitlen d;
            num = (if 0 \<le> s then n * 2 ^ nat s else n);
            den = (if 0 \<le> s then d else d * 2 ^ nat (- s));
            big = (den * 2 ^ 53 \<le> num);
            e = (if big then x - s + 1 else x - s);
            m = round_half_even num (if big then 2 * den else den)
        in if m = 2 ^ 53 then \<lparr>mant = 2 ^ 52, expo = e + 1\<rparr> else \<lparr>mant = m, expo = e\<rparr>)"

text \<open>\<open>a / b\<close> on two positive integers, \<open>float(n)\<close>, \<open>a * b\<close> on floats and \<open>int(a)\<close>.\<close>

definition int_truediv :: "int \<Rightarrow> int \<Rightarrow> dbl" where
  "int_truediv a b = round_dbl a b 0"

definition dbl_of_int :: "int \<Rightarrow> dbl" where
  "dbl_of_int n = round_dbl n 1 0"

definition dbl_mul :: "dbl \<Rightarrow> dbl \<Rightarrow> dbl" where
  "dbl_mul a b = round_dbl (mant a * mant b) 1 (expo a + expo b)"

definition dbl_to_int :: "dbl \<Rightarrow> int" where
  "dbl_to_int a = (if 0 \<le> expo a then mant a * 2 ^ nat (expo a) else mant a div 2 ^ nat (- expo a))"

text \<open>The literal \<open>0.8\<close>: the double nearest to four fifths.\<close>

definition dbl_0_8 :: dbl where
  "dbl_0_8 = \<lparr>mant = 7205759403792794, expo = - 53\<rparr>"

section \<open>The JSON encoder\<close>

text \<open>
  \<open>json.dumps(o, ensure_ascii=False, indent=2)\<close>, the only way the plugins call the
  encoder.  With \<open>ensure_ascii=False\<close> a string is quoted and only the quote, the
  backslash and the control characters below U+0020 are escaped.
\<close>

definition hex_digit :: "nat \<Rightarrow> nat" where
  "hex_digit d = (if d < 10 then 48 + d else 87 + d)"

definition escape_char :: "nat \<Rightarrow> str" where
  "escape_char c =
     (if c = 34 then [92, 34]
      else if c = 92 then [92, 92]
      else if c = 8 then [92, ch CHR ''b'']
      else if c = 12 then [92, ch CHR ''f'']
      else if c = 10 then [92, ch CHR ''n'']
      else if c = 13 then [92, ch CHR ''r'']
      else if c = 9 then [92, ch CHR ''t'']
      else if c < 32 then [92, ch CHR ''u'', 48, 48, hex_digit (c div 16), hex_digit (c mod 16)]
      else [c])"

definition encode_basestring :: "str \<Rightarrow> str" where
  "encode_basestring s = [34] @ concat (map escape_char s) @ [34]"

definition newline_indent :: "nat \<Rightarrow> str" where
  "newline_indent level = 10 # replicate (2 * level) 32"

definition not_serializable :: "pyval \<Rightarrow> exc" where
  "not_serializable v =
     Exc TypeError (asc ''Object of type '' @ class_name v @ asc '' is not JSON serializable'')"

fun iterencode :: "nat \<Rightarrow> pyval \<Rightarrow> exc + str"
  and iterencode_list :: "nat \<Rightarrow> pyval list \<Rightarrow> exc + str list"
  and iterencode_dict :: "nat \<Rightarrow> (str \<times> pyval) list \<Rightarrow> exc + str list"
where
  "iterencode level (PStr s) = Inr (encode_basestring s)"
| "iterencode level PNone = Inr (asc ''null'')"
| "iterencode level (PBool b) = Inr (if b then asc ''true'' else asc ''false'')"
| "iterencode level (PInt i) = Inr (str_int i)"
| "iterencode level (PFloat r) = Inr r"
| "iterencode level (PList xs) =
     (if xs = [] then Inr (asc ''[]'')
      else case iterencode_list (Suc level) xs of
             Inl e \<Rightarrow> Inl e
           | Inr chunks \<Rightarrow>
               Inr (asc ''['' @ newline_indent (Suc level)
                    @ join (asc '','' @ newline_indent (Suc level)) chunks
                    @ newline_indent level @ asc '']''))"
| "iterencode level (PTuple xs) =
     (if xs = [] then Inr (asc ''[]'')
      else case iterencode_list (Suc level) xs of
             Inl e \<Rightarrow> Inl e
           | Inr chunks \<Rightarrow>
               Inr (asc ''['' @ newline_indent (Suc level)
                    @ join (asc '','' @ newline_indent (Suc level)) chunks
                    @ newline_indent level @ asc '']''))"
| "iterencode level (PDict kvs) =
     (if kvs = [] then Inr (asc ''{}'')
      else case iterencode_dict (Suc level) kvs of
             Inl e \<Rightarrow> Inl e
           | Inr chunks \<Rightarrow>
               Inr (asc ''{'' @ newline_indent (Suc level)
                    @ join (asc '','' @ newline_indent (Suc level)) chunks
                    @ newline_indent level @ asc ''}''))"
| "iterencode level (PDatetime d) = Inl (not_serializable (PDatetime d))"
| "iterencode level (PDate d) = Inl (not_serializable (PDate d))"
| "iterencode level (PTime t) = Inl (not_serializable (PTime t))"
| "iterencode level (POther c) = Inl (not_serializable (POther c))"
| "iterencode_list level [] = Inr []"
| "iterencode_list level (x # xs) =
     (case iterencode level x of
        Inl e \<Rightarrow> Inl e
      | Inr c \<Rightarrow> (case iterencode_list level xs of Inl e \<Rightarrow> Inl e | Inr cs \<Rightarrow> Inr (c # cs)))"
| "iterencode_dict level [] = Inr []"
| "iterencode_dict level (kv # kvs) =
     (case iterencode level (snd kv) of
        Inl e \<Rightarrow> Inl e
      | Inr c \<Rightarrow>
          (case iterencode_dict level kvs of
             Inl e \<Rightarrow> Inl e
           | Inr cs \<Rightarrow> Inr ((encode_basestring (fst kv) @ asc '': '' @ c) # cs)))"

definition json_dumps :: "pyval \<Rightarrow> exc + str" where
  "json_dumps obj = iterencode 0 obj"

section \<open>The JSON decoder\<close>

text \<open>
  \<open>json.loads(s)\<close> on a \<open>str\<close>, as CPython's scanner reads it.  The program only ever
  measures a decoded value with \<open>len\<close>, so decoded values have a type of their own, in
  which a float keeps the text of its literal.  A repeated key of an object keeps its
  first position and its last value, as a \<open>dict\<close> does.
\<close>

datatype json =
    JNull
  | JBool bool
  | JInt int
  | JFloat str
  | JStr str
  | JArr "json list"
  | JObj "(str \<times> json) list"

fun dict_set :: "(str \<times> 'v) list \<Rightarrow> str \<Rightarrow> 'v \<Rightarrow> (str \<times> 'v) list" where
  "dict_set [] k v = [(k, v)]"
| "dict_set ((k', v') # kvs) k v = (if k' = k then (k', v) # kvs else (k', v') # dict_set kvs k v)"

text \<open>
  A scan works on the rest of the document.  An error records how many characters were
  left at the position Python reports, from which \<open>json_loads\<close> computes the position.
  \<open>DigitLimit\<close> is the \<open>ValueError\<close> of \<open>int\<close> on a literal of more than 4300 digits.
\<close>

datatype scan_err = DecodeErr str nat | DigitLimit nat | OutOfFuel

definition is_ws :: "nat \<Rightarrow> bool" where
  "is_ws c = (c = 32 \<or> c = 9 \<or> c = 10 \<or> c = 13)"

definition skip_ws :: "str \<Rightarrow> str" where
  "skip_ws s = dropWhile is_ws s"

definition is_digit :: "nat \<Rightarrow> bool" where
  "is_digit c = (48 \<le> c \<and> c \<le> 57)"

definition hexval :: "nat \<Rightarrow> nat option" where
  "hexval c =
     (if 48 \<le> c \<and> c \<le> 57 then Some (c - 48)
      else if 97 \<le> c \<and> c \<le> 102 then Some (c - 87)
      else if 65 \<le> c \<and> c \<le> 70 then Some (c - 55)
      else None)"

fun hex4 :: "str \<Rightarrow> nat option" where
  "hex4 [a, b, c, d] =
     (case (hexval a, hexval b, hexval c, hexval d) of
        (Some w, Some x, Some y, Some z) \<Rightarrow> Some (((w * 16 + x) * 16 + y) * 16 + z)
      | _ \<Rightarrow> None)"
| "hex4 _ = None"

definition backslash :: "nat \<Rightarrow> nat option" where
  "backslash e =
     (if e = 34 \<or> e = 92 \<or> e = 47 then Some e
      else if e = ch CHR ''b'' then Some 8
      else if e = ch CHR ''f'' then Some 12
      else if e = ch CHR ''n'' then Some 10
      else if e = ch CHR ''r'' then Some 13
      else if e = ch CHR ''t'' then Some 9
      else None)"

definition expecting_delimiter :: "nat \<Rightarrow> str" where
  "expecting_delimiter c = asc ''Expecting '' @ [39, c, 39] @ asc '' delimiter''"

text \<open>The body of a string literal, after the opening quote; \<open>b\<close> is what was left of the
  document at that quote.\<close>

function scanstring :: "nat \<Rightarrow> str \<Rightarrow> str \<Rightarrow> scan_err + (str \<times> str)" where
  "scanstring b acc [] = Inl (DecodeErr (asc ''Unterminated string starting at'') b)"
| "scanstring b acc (c # cs) =
     (if c = 34 then Inr (rev acc, cs)
      else if c = 92 then
        (case cs of
           [] \<Rightarrow> Inl (DecodeErr (asc ''Unterminated string starting at'') b)
         | e # es \<Rightarrow>
             if e \<noteq> ch CHR ''u'' then
               (case backslash e of
                  None \<Rightarrow> Inl (DecodeErr (asc ''Invalid '' @ [92] @ asc ''escape'') (length (c # cs)))
                | Some d \<Rightarrow> scanstring b (d # acc) es)
             else if length es \<le> 4 then
               Inl (DecodeErr (asc ''Invalid '' @ [92] @ asc ''uXXXX escape'') (length cs))
             else
               (case hex4 (take 4 es) of
                  None \<Rightarrow> Inl (DecodeErr (asc ''Invalid '' @ [92] @ asc ''uXXXX escape'') (length cs))
                | Some u \<Rightarrow>
                    let rest = drop 4 es
                    in if 55296 \<le> u \<and> u \<le> 56319 \<and> 6 < length rest \<and> take 2 rest = [92, ch CHR ''u'']
                       then
                         (case hex4 (take 4 (drop 2 rest)) of
                            None \<Rightarrow>
                              Inl (DecodeErr (asc ''Invalid '' @ [92] @ asc ''uXXXX escape'')
                                     (length rest - 1))
                          | Some u2 \<Rightarrow>
                              if 56320 \<le> u2 \<and> u2 \<le> 57343
                              then scanstring b
                                     ((65536 + ((u - 55296) * 1024 + (u2 - 56320))) # acc)
                                     (drop 6 rest)
                              else scanstring b (u # acc) rest)
                       else scanstring b (u # acc) rest))
      else if c \<le> 31 then
        Inl (DecodeErr (asc ''Invalid control character at'') (length (c # cs)))
      else scanstring b (c # acc) cs)"
  by pat_completeness auto
termination
  by (relation "measure (\<lambda>(b, acc, s). length s)") auto

definition int_of_digits :: "str \<Rightarrow> int" where
  "int_of_digits ds = foldl (\<lambda>a d. 10 * a + int (d - 48)) 0 ds"

text \<open>A number literal at the head of the input, if there is one: an optional minus, an
  integer part without leading zero, an optional fraction, an optional exponent.\<close>

definition match_number :: "str \<Rightarrow> scan_err + (json \<times> str)" where
  "match_number s =
     (let neg = (s \<noteq> [] \<and> hd s = ch CHR ''-'');
          s1 = (if neg then tl s else s);
          ds = (if s1 \<noteq> [] \<and> hd s1 = 48 then [48]
                else if s1 \<noteq> [] \<and> 49 \<le> hd s1 \<and> hd s1 \<le> 57 then takeWhile is_digit s1
                else []);
          s2 = drop (length ds) s1;
          frac = (case s2 of
                    p # d # t \<Rightarrow> if p = ch CHR ''.'' \<and> is_digit d then p # d # takeWhile is_digit t
                                 else []
                  | _ \<Rightarrow> []);
          s3 = drop (length frac) s2;
          ex = (case s3 of
                  e # t \<Rightarrow>
                    if e = ch CHR ''e'' \<or> e = ch CHR ''E'' then
                      (let sg = (case t of
                                   g # _ \<Rightarrow> if g = ch CHR ''-'' \<or> g = ch CHR ''+'' then [g] else []
                                 | [] \<Rightarrow> []);
                           xs = takeWhile is_digit (drop (length sg) t)
                       in if xs = [] then [] else e # sg @ xs)
                    else []
                | [] \<Rightarrow> []);
          s4 = drop (length ex) s3
      in if ds = [] then Inl (DecodeErr (asc ''Expecting value'') (length s))
         else if frac = [] \<and> ex = [] then
           (if 4300 < length ds then Inl (DigitLimit (length ds))
            else Inr (JInt (if neg then - int_of_digits ds else int_of_digits ds), s4))
         else Inr (JFloat ((if neg then asc ''-'' else []) @ ds @ frac @ ex), s4))"

fun scan_once :: "nat \<Rightarrow> str \<Rightarrow> scan_err + (json \<times> str)"
  and parse_array :: "nat \<Rightarrow> json list \<Rightarrow> str \<Rightarrow> scan_err + (json \<times> str)"
  and parse_object :: "nat \<Rightarrow> (str \<times> json) list \<Rightarrow> str \<Rightarrow> scan_err + (json \<times> str)"
where
  "scan_once 0 s = Inl OutOfFuel"
| "scan_once (Suc n) [] = Inl (DecodeErr (asc ''Expecting value'') 0)"
| "scan_once (Suc n) (c # cs) =
     (if c = 34 then
        (case scanstring (length (c # cs)) [] cs of
           Inl e \<Rightarrow> Inl e
         | Inr (t, r) \<Rightarrow> Inr (JStr t, r))
      else if c = ch CHR ''{'' then
        (case skip_ws cs of
           [] \<Rightarrow> parse_object n [] []
         | d # r \<Rightarrow> if d = ch CHR ''}'' then Inr (JObj [], r) else parse_object n [] (d # r))
      else if c = ch CHR ''['' then
        (case skip_ws cs of
           [] \<Rightarrow> parse_array n [] []
         | d # r \<Rightarrow> if d = ch CHR '']'' then Inr (JArr [], r) else parse_array n [] (d # r))
      else if prefix (asc ''null'') (c # cs) then Inr (JNull, drop 4 (c # cs))
      else if prefix (asc ''true'') (c # cs) then Inr (JBool True, drop 4 (c # cs))
      else if prefix (asc ''false'') (c # cs) then Inr (JBool False, drop 5 (c # cs))
      else if prefix (asc ''NaN'') (c # cs) then Inr (JFloat (asc ''NaN''), drop 3 (c # cs))
      else if prefix (asc ''Infinity'') (c # cs) then Inr (JFloat (asc ''Infinity''), drop 8 (c # cs))
      else if prefix (asc ''-Infinity'') (c # cs) then
        Inr (JFloat (asc ''-Infinity''), drop 9 (c # cs))
      else match_number (c # cs))"
| "parse_array 0 acc s = Inl OutOfFuel"
| "parse_array (Suc n) acc s =
     (case scan_once n s of
        Inl e \<Rightarrow> Inl e
      | Inr (v, r) \<Rightarrow>
          (case skip_ws r of
             [] \<Rightarrow> Inl (DecodeErr (expecting_delimiter 44) 0)
           | d # r2 \<Rightarrow>
               if d = ch CHR '']'' then Inr (JArr (rev (v # acc)), r2)
               else if d = ch CHR '','' then parse_array n (v # acc) (skip_ws r2)
               else Inl (DecodeErr (expecting_delimiter 44) (length (d # r2)))))"
| "parse_object 0 acc s = Inl OutOfFuel"
| "parse_object (Suc n) acc s =
     (case s of
        [] \<Rightarrow> Inl (DecodeErr (asc ''Expecting property name enclosed in double quotes'') 0)
      | q # ks \<Rightarrow>
          if q \<noteq> 34 then
            Inl (DecodeErr (asc ''Expecting property name enclosed in double quotes'') (length s))
          else
            (case scanstring (length s) [] ks of
               Inl e \<Rightarrow> Inl e
             | Inr (key, r) \<Rightarrow>
                 (case skip_ws r of
                    [] \<Rightarrow> Inl (DecodeErr (expecting_delimiter 58) 0)
                  | d # r2 \<Rightarrow>
                      if d \<noteq> ch CHR '':'' then
                        Inl (DecodeErr (expecting_delimiter 58) (length (d # r2)))
                      else
                        (case scan_once n (skip_ws r2) of
                           Inl e \<Rightarrow> Inl e
                         | Inr (v, r3) \<Rightarrow>
                             (case skip_ws r3 of
                                [] \<Rightarrow> Inl (DecodeErr (expecting_delimiter 44) 0)
                              | d2 # r4 \<Rightarrow>
                                  if d2 = ch CHR ''}'' then Inr (JObj (dict_set acc key v), r4)
                                  else if d2 = ch CHR '','' then
                                    parse_object n (dict_set acc key v) (skip_ws r4)
                                  else
                                    Inl (DecodeErr (expecting_delimiter 44)
                                           (length (d2 # r4))))))))"

text \<open>The text of a \<open>JSONDecodeError\<close>: the message, then line, column and offset of the
  position \<open>pos\<close> in the document.\<close>

definition errmsg :: "str \<Rightarrow> str \<Rightarrow> nat \<Rightarrow> str" where
  "errmsg msg doc pos =
     (let upto = take pos doc;
          lineno = length (filter (\<lambda>c. c = 10) upto) + 1;
          colno = length (takeWhile (\<lambda>c. c \<noteq> 10) (rev upto)) + 1
      in msg @ asc '': line '' @ str_nat lineno @ asc '' column '' @ str_nat colno
         @ asc '' (char '' @ str_nat pos @ asc '')'')"

text \<open>
  Every call of the scanner uses up one unit of fuel and consumes at least one character
  before the next call, so twice the length of the document is enough for any document.
  Where the fuel ends the decoder gives up the way CPython does when its recursion guard
  fires; the depth at which the real guard fires is not modelled.
\<close>

definition json_loads :: "str \<Rightarrow> exc + json" where
  "json_loads s =
     (if prefix [65279] s then
        Inl (Exc JSONDecodeError (errmsg (asc ''Unexpected UTF-8 BOM (decode using utf-8-sig)'') s 0))
      else
        case scan_once (2 * length s + 2) (skip_ws s) of
          Inl (DecodeErr msg left) \<Rightarrow> Inl (Exc JSONDecodeError (errmsg msg s (length s - left)))
        | Inl (DigitLimit k) \<Rightarrow>
            Inl (Exc ValueError
                  (asc ''Exceeds the limit (4300 digits) for integer string conversion: value has ''
                   @ str_nat k
                   @ asc '' digits; use sys.set_int_max_str_digits() to increase the limit''))
        | Inl OutOfFuel \<Rightarrow>
            Inl (Exc RecursionError (asc ''maximum recursion depth exceeded''))
        | Inr (v, r) \<Rightarrow>
            (let r1 = skip_ws r
             in if r1 = [] then Inr v
                else Inl (Exc JSONDecodeError (errmsg (asc ''Extra data'') s (length s - length r1)))))"

text \<open>\<open>len(v)\<close> of a decoded value.\<close>

fun json_class_name :: "json \<Rightarrow> str" where
  "json_class_name JNull = asc ''NoneType''"
| "json_class_name (JBool _) = asc ''bool''"
| "json_class_name (JInt _) = asc ''int''"
| "json_class_name (JFloat _) = asc ''float''"
| "json_class_name (JStr _) = asc ''str''"
| "json_class_name (JArr _) = asc ''list''"
| "json_class_name (JObj _) = asc ''dict''"

fun py_len :: "json \<Rightarrow> exc + nat" where
  "py_len (JArr xs) = Inr (length xs)"
| "py_len (JObj kvs) = Inr (length kvs)"
| "py_len (JStr t) = Inr (length t)"
| "py_len v = Inl (Exc TypeError (asc ''object of type '' @ [39] @ json_class_name v @ [39]
                                   @ asc '' has no len()''))"

section \<open>Token budget enforcement\<close>

text \<open>
  \<open>_enforce_token_limit\<close> exists three times: in \<open>parquet_tools.py\<close>, where the warning
  ends with a \<open>suggestion\<close> text, and in \<open>get_schema.py\<close> and
  \<open>list_tables_in_directory.py\<close>, where it does not.  The flag \<open>hint\<close> tells the copies
  apart; everything else is the same code.
\<close>

text \<open>\<open>max(1, int(current_size * ratio * 0.8))\<close> with \<open>ratio = TOKEN_LIMIT / token_estimate\<close>.\<close>

definition suggested_limit_for :: "nat \<Rightarrow> int \<Rightarrow> int" where
  "suggested_limit_for current_size token_estimate =
     (let ratio = int_truediv TOKEN_LIMIT token_estimate
      in max 1 (dbl_to_int (dbl_mul (dbl_mul (dbl_of_int (int current_size)) ratio) dbl_0_8)))"

text \<open>\<open>len(json.loads(payload)) if payload.startswith("[") else None\<close>.\<close>

definition current_size_of :: "str \<Rightarrow> exc + nat option" where
  "current_size_of payload =
     (if prefix (asc ''['') payload then
        (case json_loads payload of
           Inl e \<Rightarrow> Inl e
         | Inr v \<Rightarrow> (case py_len v of Inl e \<Rightarrow> Inl e | Inr n \<Rightarrow> Inr (Some n)))
      else Inr None)"

definition py_opt_int :: "int option \<Rightarrow> pyval" where
  "py_opt_int x = (case x of None \<Rightarrow> PNone | Some i \<Rightarrow> PInt i)"

definition suggestion_parts :: "int option \<Rightarrow> str list" where
  "suggestion_parts suggested_limit =
     [asc ''The query result is too large. Please adjust your query:'',
      asc ''  '' @ [8226] @ asc '' Reduce the LIMIT value''
        @ (case suggested_limit of
             None \<Rightarrow> []
           | Some k \<Rightarrow> if k = 0 then [] else asc '' (try LIMIT '' @ str_int k @ asc '')''),
      asc ''  '' @ [8226] @ asc '' Filter rows with WHERE clauses to reduce result size'',
      asc ''  '' @ [8226] @ asc '' Select only necessary columns instead of SELECT *'',
      asc ''  '' @ [8226] @ asc '' Use aggregation (COUNT, SUM, AVG) instead of retrieving raw rows'']"

definition warning_dict :: "bool \<Rightarrow> str \<Rightarrow> int \<Rightarrow> nat option \<Rightarrow> pyval" where
  "warning_dict hint context token_estimate current_size =
     (let suggested_limit =
            (case current_size of
               None \<Rightarrow> None
             | Some n \<Rightarrow> if n = 0 then None else Some (suggested_limit_for n token_estimate))
      in PDict
           ([(asc ''error'', PStr (asc ''Result exceeds token budget'')),
             (asc ''context'', PStr context),
             (asc ''estimated_tokens'', PInt token_estimate),
             (asc ''token_limit'', PInt TOKEN_LIMIT),
             (asc ''rows_returned'', py_opt_int (map_option int current_size)),
             (asc ''suggested_limit'', py_opt_int suggested_limit)]
            @ (if hint then [(asc ''suggestion'', PStr (join [10] (suggestion_parts suggested_limit)))]
               else [])))"

definition overflow_warning :: "bool \<Rightarrow> str \<Rightarrow> str \<Rightarrow> exc + pyval" where
  "overflow_warning hint payload context =
     (case current_size_of payload of
        Inl e \<Rightarrow> Inl e
      | Inr current_size \<Rightarrow>
          Inr (warning_dict hint context (estimate_token_count payload) current_size))"

definition enforce :: "bool \<Rightarrow> str \<Rightarrow> str \<Rightarrow> exc + str" where
  "enforce hint payload context =
     (let token_estimate = estimate_token_count payload
      in if token_estimate \<le> TOKEN_LIMIT then Inr payload
         else case overflow_warning hint payload context of
                Inl e \<Rightarrow> Inl e
              | Inr warning \<Rightarrow> json_dumps warning)"

text \<open>The copy in \<open>parquet_tools.py\<close> and the copy of the two one-plugin files.\<close>

definition enforce_token_limit :: "str \<Rightarrow> str \<Rightarrow> exc + str" where
  "enforce_token_limit payload context = enforce True payload context"

definition enforce_token_limit_plain :: "str \<Rightarrow> str \<Rightarrow> exc + str" where
  "enforce_token_limit_plain payload context = enforce False payload context"

text \<open>\<open>d.get(k)\<close> on a dictionary value.\<close>

fun field :: "pyval \<Rightarrow> str \<Rightarrow> pyval option" where
  "field (PDict kvs) k = map_of kvs k"
| "field _ k = None"

section \<open>Paths\<close>

text \<open>
  \<open>pathlib\<close> on a POSIX host: a path is a root (empty, one slash or two slashes) and its
  components; empty components and \<open>.\<close> are dropped when a string is parsed, \<open>..\<close> is kept.
\<close>

record path =
  p_root :: str
  p_parts :: "str list"

fun split_on :: "nat \<Rightarrow> str \<Rightarrow> str list" where
  "split_on c [] = [[]]"
| "split_on c (x # xs) =
     (if x = c then [] # split_on c xs
      else case split_on c xs of w # ws \<Rightarrow> (x # w) # ws | [] \<Rightarrow> [[x]])"

definition splitroot :: "str \<Rightarrow> str \<times> str" where
  "splitroot part =
     (if part \<noteq> [] \<and> hd part = 47 then
        (let stripped_part = dropWhile (\<lambda>c. c = 47) part
         in if length part - length stripped_part = 2 then ([47, 47], stripped_part)
            else ([47], stripped_part))
      else ([], part))"

definition Path :: "str \<Rightarrow> path" where
  "Path s =
     (let (r, rel) = splitroot s
      in \<lparr>p_root = r, p_parts = filter (\<lambda>x. x \<noteq> [] \<and> x \<noteq> asc ''.'') (split_on 47 rel)\<rparr>)"

definition path_str :: "path \<Rightarrow> str" where
  "path_str p = (let t = p_root p @ join [47] (p_parts p) in if t = [] then asc ''.'' else t)"

definition is_absolute :: "path \<Rightarrow> bool" where
  "is_absolute p = (p_root p \<noteq> [])"

definition abs_parts :: "path \<Rightarrow> str list" where
  "abs_parts p = (if p_root p \<noteq> [] then [[], p_root p] @ p_parts p else p_parts p)"

text \<open>\<open>p.relative_to(other)\<close>; \<open>None\<close> is the \<open>ValueError\<close>, whose text the callers never
  read.\<close>

definition relative_to :: "path \<Rightarrow> path \<Rightarrow> path option" where
  "relative_to p other =
     (let n = length (abs_parts other)
      in if (if n = 0 then p_root p \<noteq> [] else take n (abs_parts p) \<noteq> abs_parts other)
         then None
         else Some \<lparr>p_root = (if n = 1 then p_root p else []), p_parts = drop n (abs_parts p)\<rparr>)"

text \<open>\<open>a / b\<close>.\<close>

definition joinpath :: "path \<Rightarrow> path \<Rightarrow> path" where
  "joinpath a b =
     (if p_root b \<noteq> [] then b else \<lparr>p_root = p_root a, p_parts = p_parts a @ p_parts b\<rparr>)"

definition path_name :: "path \<Rightarrow> str" where
  "path_name p = (if p_parts p = [] then [] else last (p_parts p))"

definition rfind :: "nat \<Rightarrow> str \<Rightarrow> int" where
  "rfind c s =
     (if c \<in> set s then int (length s) - 1 - int (length (takeWhile (\<lambda>x. x \<noteq> c) (rev s)))
      else - 1)"

definition stem :: "path \<Rightarrow> str" where
  "stem p =
     (let name = path_name p; i = rfind 46 name
      in if 0 < i \<and> i < int (length name) - 1 then take (nat i) name else name)"

text \<open>
  The block every plugin runs on a file path before it hands the path to the engine
  (the Path Normalizer of the specification); \<open>cwd\<close> is the text of \<open>Path.cwd()\<close>.
\<close>

definition normalize_path :: "str \<Rightarrow> str \<Rightarrow> str" where
  "normalize_path cwd file_path =
     (let file_path_obj = Path file_path
      in if is_absolute file_path_obj then
           (case relative_to file_path_obj (Path cwd) of
              Some r \<Rightarrow> path_str r
            | None \<Rightarrow> path_str file_path_obj)
         else file_path)"

section \<open>Result serializer\<close>

text \<open>\<open>datetime.isoformat()\<close> with its defaults; the UTC offset, if the value has one, is a
  whole number of seconds.\<close>

definition format_offset :: "int \<Rightarrow> str" where
  "format_offset off =
     (let a = nat \<bar>off\<bar>; hh = a div 3600; mm = (a mod 3600) div 60; ss = a mod 60
      in (if off < 0 then asc ''-'' else asc ''+'') @ zero_pad 2 hh @ asc '':'' @ zero_pad 2 mm
         @ (if ss \<noteq> 0 then asc '':'' @ zero_pad 2 ss else []))"

definition isoformat :: "datetime \<Rightarrow> str" where
  "isoformat d =
     zero_pad 4 (dt_year d) @ asc ''-'' @ zero_pad 2 (dt_month d) @ asc ''-'' @ zero_pad 2 (dt_day d)
     @ asc ''T'' @ zero_pad 2 (dt_hour d) @ asc '':'' @ zero_pad 2 (dt_minute d) @ asc '':''
     @ zero_pad 2 (dt_second d)
     @ (if dt_microsecond d \<noteq> 0 then asc ''.'' @ zero_pad 6 (dt_microsecond d) else [])
     @ (case dt_utcoffset d of None \<Rightarrow> [] | Some off \<Rightarrow> format_offset off)"

fun serialize_datetime :: "pyval \<Rightarrow> pyval"
  and serialize_list :: "pyval list \<Rightarrow> pyval list"
  and serialize_items :: "(str \<times> pyval) list \<Rightarrow> (str \<times> pyval) list"
where
  "serialize_datetime (PDatetime d) = PStr (isoformat d)"
| "serialize_datetime (PDict kvs) = PDict (serialize_items kvs)"
| "serialize_datetime (PList xs) = PList (serialize_list xs)"
| "serialize_datetime PNone = PNone"
| "serialize_datetime (PBool b) = PBool b"
| "serialize_datetime (PInt i) = PInt i"
| "serialize_datetime (PFloat r) = PFloat r"
| "serialize_datetime (PStr t) = PStr t"
| "serialize_datetime (PDate d) = PDate d"
| "serialize_datetime (PTime t) = PTime t"
| "serialize_datetime (PTuple xs) = PTuple xs"
| "serialize_datetime (POther c) = POther c"
| "serialize_list [] = []"
| "serialize_list (x # xs) = serialize_datetime x # serialize_list xs"
| "serialize_items [] = []"
| "serialize_items (kv # kvs) = (fst kv, serialize_datetime (snd kv)) # serialize_items kvs"

section \<open>Table registrar\<close>

text \<open>The loop that looks for a free table name ends because no two counters print the
  same digits: a number is recovered from its decimal text.\<close>

definition nat_of_digits :: "str \<Rightarrow> nat" where
  "nat_of_digits ds = foldl (\<lambda>a d. 10 * a + (d - 48)) 0 ds"

lemma nat_of_digits_str_nat: "nat_of_digits (str_nat n) = n"
proof (induction n rule: str_nat.induct)
  case (1 n)
  show ?case
  proof (cases "n < 10")
    case True
    then show ?thesis by (simp add: str_nat.simps [of n] nat_of_digits_def)
  next
    case False
    with 1 have "nat_of_digits (str_nat (n div 10)) = n div 10" by simp
    with False show ?thesis
      by (simp add: str_nat.simps [of n] nat_of_digits_def)
  qed
qed

lemma str_nat_inj: "str_nat m = str_nat n \<Longrightarrow> m = n"
  by (metis nat_of_digits_str_nat)

text \<open>\<open>f"{base_name}_{counter}"\<close>.\<close>

definition suffixed :: "str \<Rightarrow> nat \<Rightarrow> str" where
  "suffixed base_name counter = base_name @ asc ''_'' @ str_nat counter"

lemma suffixed_inj: "suffixed b m = suffixed b n \<Longrightarrow> m = n"
  by (simp add: suffixed_def str_nat_inj)

lemma finite_taken: "finite {j. P j \<and> suffixed b j \<in> set names}"
proof -
  have "inj_on (suffixed b) {j. P j \<and> suffixed b j \<in> set names}"
    by (auto simp: inj_on_def dest: suffixed_inj)
  moreover have "suffixed b ` {j. P j \<and> suffixed b j \<in> set names} \<subseteq> set names"
    by auto
  ultimately show ?thesis
    by (meson finite_imageD finite_subset List.finite_set)
qed

text \<open>
  \<open>while table_name in table_names: table_name = f"{base_name}_{counter}"; counter += 1\<close>.
  The set \<open>table_names\<close> is kept as the list of its members in the order they were added.
\<close>

function name_loop :: "str list \<Rightarrow> str \<Rightarrow> str \<Rightarrow> nat \<Rightarrow> str" where
  "name_loop table_names base_name table_name counter =
     (if table_name \<in> set table_names
      then name_loop table_names base_name (suffixed base_name counter) (counter + 1)
      else table_name)"
  by pat_completeness auto
termination
proof (relation "measure (\<lambda>(names, b, t, c).
          2 * card {j. c \<le> j \<and> suffixed b j \<in> set names} + (if t \<in> set names then 1 else 0))",
       goal_cases)
  case 1
  show ?case by simp
next
  case (2 names b t c)
  let ?S = "{j. c \<le> j \<and> suffixed b j \<in> set names}"
  let ?S' = "{j. c + 1 \<le> j \<and> suffixed b j \<in> set names}"
  have fin: "finite ?S" by (rule finite_taken)
  have sub: "?S' \<subseteq> ?S" by auto
  show ?case
  proof (cases "suffixed b c \<in> set names")
    case True
    then have "c \<in> ?S" "c \<notin> ?S'" by auto
    with sub have "?S' \<subset> ?S" by blast
    with fin have "card ?S' < card ?S" by (rule psubset_card_mono)
    with 2 show ?thesis by simp
  next
    case False
    have "?S' = ?S"
    proof
      show "?S' \<subseteq> ?S" by (rule sub)
      show "?S \<subseteq> ?S'"
      proof
        fix j assume j: "j \<in> ?S"
        with False have "j \<noteq> c" by auto
        with j show "j \<in> ?S'" by auto
      qed
    qed
    with 2 False show ?thesis by simp
  qed
qed

declare name_loop.simps [simp del]

text \<open>The name the registrar gives a file, given the names already taken.\<close>

definition table_name_for :: "str list \<Rightarrow> str \<Rightarrow> str" where
  "table_name_for table_names file_path =
     (let base_name = stem (Path file_path) in name_loop table_names base_name base_name 1)"

text \<open>The names of a whole call, without the engine: what \<open>table_names\<close> holds after the
  loop when no \<open>CREATE VIEW\<close> fails.\<close>

fun assign_names :: "str list \<Rightarrow> str list \<Rightarrow> str list" where
  "assign_names table_names [] = table_names"
| "assign_names table_names (file_path # rest) =
     assign_names (table_names @ [table_name_for table_names file_path]) rest"

section \<open>The query engine and the file system\<close>

text \<open>
  The engine is an external collaborator: \<open>eng log sql\<close> is what \<open>conn.execute(sql)\<close>
  does on a connection that has run the statements \<open>log\<close> before: it raises, or it
  returns the rows and the description of the result.  The world records which
  connections are open.  The file system answers \<open>exists\<close>, \<open>is_dir\<close> and \<open>glob\<close>.
\<close>

record result_set =
  rs_rows :: "pyval list list"
  rs_description :: "(str \<times> str) list"

type_synonym engine = "str list \<Rightarrow> str \<Rightarrow> exc + result_set"

record world =
  next_handle :: nat
  open_handles :: "nat list"

record connection =
  handle :: nat
  executed :: "str list"

record fs =
  fs_exists :: "str \<Rightarrow> bool"
  fs_is_dir :: "str \<Rightarrow> bool"
  fs_glob :: "str \<Rightarrow> str list"
  fs_cwd :: str

definition connect :: "world \<Rightarrow> connection \<times> world" where
  "connect w =
     (\<lparr>handle = next_handle w, executed = []\<rparr>,
      w\<lparr>next_handle := Suc (next_handle w), open_handles := next_handle w # open_handles w\<rparr>)"

definition close :: "connection \<Rightarrow> world \<Rightarrow> world" where
  "close conn w = w\<lparr>open_handles := removeAll (handle conn) (open_handles w)\<rparr>"

definition execute :: "engine \<Rightarrow> connection \<Rightarrow> str \<Rightarrow> exc + (result_set \<times> connection)" where
  "execute eng conn sql =
     (case eng (executed conn) sql of
        Inl e \<Rightarrow> Inl e
      | Inr rs \<Rightarrow> Inr (rs, conn\<lparr>executed := executed conn @ [sql]\<rparr>))"

definition fetchone :: "result_set \<Rightarrow> pyval list option" where
  "fetchone rs = (case rs_rows rs of [] \<Rightarrow> None | row # _ \<Rightarrow> Some row)"

section \<open>The query plugin\<close>

datatype files_arg = One str | Many "str list"

definition validate_parquet_files :: "fs \<Rightarrow> files_arg \<Rightarrow> exc + str list" where
  "validate_parquet_files f parquet_files =
     (let files = (case parquet_files of One p \<Rightarrow> [p] | Many ps \<Rightarrow> ps)
      in case filter (\<lambda>file_path. \<not> fs_exists f file_path) files of
           [] \<Rightarrow> Inr files
         | file_path # _ \<Rightarrow>
             Inl (Exc FileNotFoundError
                   (asc ''Parquet file not found: '' @ file_path @ [10]
                    @ asc ''Please check the file path and ensure the file exists. ''
                    @ asc ''You may use '' @ [39] @ asc ''list_tables_in_directory'' @ [39]
                    @ asc '' to discover available parquet files.'')))"

definition create_view_sql :: "str \<Rightarrow> str \<Rightarrow> str" where
  "create_view_sql table_name file_path =
     asc ''CREATE VIEW '' @ table_name @ asc '' AS SELECT * FROM read_parquet('' @ [39]
     @ file_path @ [39] @ asc '')''"

text \<open>The registration loop: the name is added to \<open>table_names\<close> before the view is
  created, so a failing \<open>CREATE VIEW\<close> leaves its name among the registered ones.\<close>

fun register_views ::
  "engine \<Rightarrow> str list \<Rightarrow> connection \<Rightarrow> str list \<Rightarrow> exc option \<times> str list \<times> connection" where
  "register_views eng table_names conn [] = (None, table_names, conn)"
| "register_views eng table_names conn (file_path # rest) =
     (let table_name = table_name_for table_names file_path;
          table_names' = table_names @ [table_name]
      in case execute eng conn (create_view_sql table_name file_path) of
           Inl e \<Rightarrow> (Some e, table_names', conn)
         | Inr (r, conn') \<Rightarrow> register_views eng table_names' conn' rest)"

text \<open>\<open>dict(zip(columns, row, strict=False))\<close>.\<close>

definition row_dict :: "str list \<Rightarrow> pyval list \<Rightarrow> pyval" where
  "row_dict columns row = PDict (foldl (\<lambda>d (k, v). dict_set d k v) [] (zip columns row))"

text \<open>\<open>xs[:k]\<close>, and the limit step \<open>if len(rows) > limit: rows = rows[:limit]\<close>.\<close>

definition slice_to :: "'a list \<Rightarrow> int \<Rightarrow> 'a list" where
  "slice_to xs k = (if k < 0 then take (nat (int (length xs) + k)) xs else take (nat k) xs)"

definition apply_limit :: "'a list \<Rightarrow> int \<Rightarrow> 'a list" where
  "apply_limit rows limit = (if limit < int (length rows) then slice_to rows limit else rows)"

text \<open>The rows as they are handed to \<open>json.dumps\<close>: built from the result, serialized (on a
  list \<open>_serialize_datetime\<close> maps over the items), then cut to the limit.\<close>

definition limited_rows :: "result_set \<Rightarrow> int \<Rightarrow> pyval list" where
  "limited_rows rs limit =
     (let columns = map fst (rs_description rs);
          rows = map (row_dict columns) (rs_rows rs);
          serialized_rows = serialize_list rows
      in apply_limit serialized_rows limit)"

text \<open>The \<open>try\<close> block: its outcome, the JSON text that went into budget enforcement (if
  the block got that far) and the registered names.\<close>

definition query_body ::
  "engine \<Rightarrow> str \<Rightarrow> connection \<Rightarrow> str list \<Rightarrow> str \<Rightarrow> int \<Rightarrow> (exc + str) \<times> str option \<times> str list" where
  "query_body eng cwd conn files query limit =
     (let parquet_files = map (normalize_path cwd) files
      in case register_views eng [] conn parquet_files of
           (Some e, table_names, c) \<Rightarrow> (Inl e, None, table_names)
         | (None, table_names, c) \<Rightarrow>
             (case execute eng c query of
                Inl e \<Rightarrow> (Inl e, None, table_names)
              | Inr (rs, c') \<Rightarrow>
                  (case json_dumps (PList (limited_rows rs limit)) of
                     Inl e \<Rightarrow> (Inl e, None, table_names)
                   | Inr result_json \<Rightarrow>
                       (enforce_token_limit result_json (asc ''query_parquet_files''),
                        Some result_json, table_names))))"

definition available_tables :: "str list \<Rightarrow> str" where
  "available_tables table_names =
     (if table_names = [] then asc ''None'' else join (asc '', '') table_names)"

text \<open>The two lines that all three messages of the \<open>except Exception\<close> clause share, and
  the messages.\<close>

definition error_context :: "str \<Rightarrow> str list \<Rightarrow> str" where
  "error_context query table_names =
     (asc ''Query: '' @ query) @ [10] @ (asc ''Available tables: '' @ available_tables table_names)"

definition query_error :: "str \<Rightarrow> str \<Rightarrow> str list \<Rightarrow> exc" where
  "query_error error_msg query table_names =
     (if contains (lower error_msg) (asc ''syntax error'')
         \<or> contains (lower error_msg) (asc ''parser error'') then
        Exc RuntimeError
          (asc ''SQL syntax error in query: '' @ error_msg @ [10]
           @ error_context query table_names @ [10]
           @ asc ''Tip: Use '' @ [39] @ asc ''get_schema'' @ [39]
           @ asc '' to check column names before querying.'')
      else if contains (lower error_msg) (asc ''catalog'')
              \<or> contains (lower error_msg) (asc ''table'') then
        Exc RuntimeError
          (asc ''Table reference error: '' @ error_msg @ [10]
           @ error_context query table_names @ [10]
           @ asc ''Make sure table names in your query match the registered table names.'')
      else
        Exc RuntimeError
          (asc ''Query execution failed: '' @ error_msg @ [10]
           @ error_context query table_names))"

text \<open>The \<open>except\<close> clauses in their order.\<close>

definition query_handler :: "exc \<Rightarrow> str \<Rightarrow> str list \<Rightarrow> exc" where
  "query_handler e query table_names =
     (if exc_cls e = FileNotFoundError then e
      else if is_Exception e then query_error (exc_str e) query table_names
      else e)"

text \<open>
  The plugin.  \<open>order\<close> is the order in which Python iterates the set \<open>table_names\<close>,
  which the program does not determine.  The connection is opened after validation and
  closed in the \<open>finally\<close> clause.
\<close>

definition query_parquet_files ::
  "engine \<Rightarrow> fs \<Rightarrow> (str list \<Rightarrow> str list) \<Rightarrow> world \<Rightarrow> files_arg \<Rightarrow> str \<Rightarrow> int
   \<Rightarrow> (exc + str) \<times> world" where
  "query_parquet_files eng f order w parquet_files query limit =
     (case validate_parquet_files f parquet_files of
        Inl e \<Rightarrow> (Inl e, w)
      | Inr files \<Rightarrow>
          (let (conn, w1) = connect w;
               (outcome, payload, table_names) = query_body eng (fs_cwd f) conn files query limit;
               result = (case outcome of
                           Inl e \<Rightarrow> Inl (query_handler e query (order table_names))
                         | Inr r \<Rightarrow> Inr r)
           in (result, close conn w1)))"

section \<open>The directory listing plugin\<close>

definition count_sql :: "str \<Rightarrow> str" where
  "count_sql file_path = asc ''SELECT COUNT(*) FROM read_parquet('' @ [39] @ file_path @ [39] @ asc '')''"

definition limit0_sql :: "str \<Rightarrow> str" where
  "limit0_sql file_path =
     asc ''SELECT * FROM read_parquet('' @ [39] @ file_path @ [39] @ asc '') LIMIT 0''"

text \<open>
  The body of the \<open>try\<close> statement in the loop of \<open>list_tables_in_directory.py\<close>: it opens a
  connection, asks for the row count and the columns, and closes the connection as its
  last step.  The result is what was raised, or the two numbers, and the world.
\<close>

definition probe_file :: "engine \<Rightarrow> world \<Rightarrow> str \<Rightarrow> (exc + pyval \<times> nat) \<times> world" where
  "probe_file eng w file_path_str =
     (let (conn, w1) = connect w
      in case execute eng conn (count_sql file_path_str) of
           Inl e \<Rightarrow> (Inl e, w1)
         | Inr (count_result, c1) \<Rightarrow>
             (case fetchone count_result of
                None \<Rightarrow>
                  (Inl (Exc RuntimeError (asc ''Failed to read row count from parquet file'')), w1)
              | Some row_count_result \<Rightarrow>
                  (case row_count_result of
                     [] \<Rightarrow> (Inl (Exc IndexError (asc ''tuple index out of range'')), w1)
                   | row_count # _ \<Rightarrow>
                       (case execute eng c1 (limit0_sql file_path_str) of
                          Inl e \<Rightarrow> (Inl e, w1)
                        | Inr (result, c2) \<Rightarrow>
                            (Inr (row_count, length (rs_description result)), close c2 w1)))))"

definition success_entry :: "path \<Rightarrow> pyval \<Rightarrow> nat \<Rightarrow> pyval" where
  "success_entry file_path row_count column_count =
     PDict [(asc ''filename'', PStr (path_name file_path)),
            (asc ''path'', PStr (path_str file_path)),
            (asc ''row_count'', row_count),
            (asc ''column_count'', PInt (int column_count))]"

definition error_entry :: "path \<Rightarrow> exc \<Rightarrow> pyval" where
  "error_entry file_path e =
     PDict [(asc ''filename'', PStr (path_name file_path)),
            (asc ''path'', PStr (path_str file_path)),
            (asc ''error'', PStr (exc_str e))]"

text \<open>The loop over the files that \<open>glob\<close> yields.  An exception that \<open>except Exception\<close>
  does not catch ends the call.\<close>

fun list_loop ::
  "engine \<Rightarrow> str \<Rightarrow> world \<Rightarrow> pyval list \<Rightarrow> path list \<Rightarrow> (exc + pyval list) \<times> world" where
  "list_loop eng cwd w files_info [] = (Inr files_info, w)"
| "list_loop eng cwd w files_info (file_path # rest) =
     (let file_path_str = normalize_path cwd (path_str file_path)
      in case probe_file eng w file_path_str of
           (Inr (row_count, column_count), w') \<Rightarrow>
             list_loop eng cwd w' (files_info @ [success_entry file_path row_count column_count]) rest
         | (Inl e, w') \<Rightarrow>
             if is_Exception e then list_loop eng cwd w' (files_info @ [error_entry file_path e]) rest
             else (Inl e, w'))"

text \<open>\<open>dir_path.glob("*.parquet")\<close>: the file system names the matching entries of the
  directory, in its order, and each becomes the path \<open>dir_path / name\<close>.\<close>

definition glob_parquet :: "fs \<Rightarrow> str \<Rightarrow> path list" where
  "glob_parquet f directory = map (\<lambda>name. joinpath (Path directory) (Path name)) (fs_glob f directory)"

text \<open>The plugin, with the list \<open>files_info\<close> it built (if it got that far).\<close>

definition list_tables_run ::
  "engine \<Rightarrow> fs \<Rightarrow> world \<Rightarrow> str \<Rightarrow> (exc + str) \<times> pyval list option \<times> world" where
  "list_tables_run eng f w directory =
     (if \<not> fs_exists f directory then
        (Inl (Exc FileNotFoundError
               (asc ''Directory not found: '' @ directory @ [10]
                @ asc ''Please verify the directory path exists and is accessible.'')), None, w)
      else if \<not> fs_is_dir f directory then
        (Inl (Exc ValueError
               (asc ''Path is not a directory: '' @ directory @ [10]
                @ asc ''Please provide a valid directory path, not a file path.'')), None, w)
      else
        case list_loop eng (fs_cwd f) w [] (glob_parquet f directory) of
          (Inl e, w') \<Rightarrow> (Inl e, None, w')
        | (Inr files_info, w') \<Rightarrow>
            (case json_dumps (PList files_info) of
               Inl e \<Rightarrow> (Inl e, Some files_info, w')
             | Inr result_json \<Rightarrow>
                 (enforce_token_limit_plain result_json (asc ''list_tables_in_directory''),
                  Some files_info, w')))"

definition list_tables_in_directory :: "engine \<Rightarrow> fs \<Rightarrow> world \<Rightarrow> str \<Rightarrow> (exc + str) \<times> world" where
  "list_tables_in_directory eng f w directory =
     (case list_tables_run eng f w directory of (result, files_info, w') \<Rightarrow> (result, w'))"

text \<open>
  What the probe of one file comes to, whatever connections are open; the entry the loop
  appends for a file; and the condition that the engine fails with exceptions that
  \<open>except Exception\<close> catches, as DuckDB's errors are.
\<close>

definition probe_outcome :: "engine \<Rightarrow> str \<Rightarrow> exc + pyval \<times> nat" where
  "probe_outcome eng file_path_str = fst (probe_file eng \<lparr>next_handle = 0, open_handles = []\<rparr> file_path_str)"

definition entry_for :: "engine \<Rightarrow> str \<Rightarrow> path \<Rightarrow> pyval" where
  "entry_for eng cwd file_path =
     (case probe_outcome eng (normalize_path cwd (path_str file_path)) of
        Inr (row_count, column_count) \<Rightarrow> success_entry file_path row_count column_count
      | Inl e \<Rightarrow> error_entry file_path e)"

definition raises_only_exceptions :: "engine \<Rightarrow> bool" where
  "raises_only_exceptions eng = (\<forall>history sql e. eng history sql = Inl e \<longrightarrow> is_Exception e)"

section \<open>Concrete inputs\<close>

text \<open>A file system in which every path exists, a world without connections, and an
  engine that accepts every \<open>CREATE VIEW\<close> and rejects every other statement as DuckDB
  rejects a misspelt keyword.\<close>

definition demo_fs :: fs where
  "demo_fs = \<lparr>fs_exists = (\<lambda>p. True), fs_is_dir = (\<lambda>p. False), fs_glob = (\<lambda>p. []),
              fs_cwd = asc ''/work''\<rparr>"

definition demo_world :: world where
  "demo_world = \<lparr>next_handle = 0, open_handles = []\<rparr>"

definition bad_sql_engine :: engine where
  "bad_sql_engine history sql =
     (if prefix (asc ''CREATE VIEW'') sql then Inr \<lparr>rs_rows = [], rs_description = []\<rparr>
      else Inl (Exc DuckDBError (asc ''Parser Error: syntax error at or near SELCT'')))"

text \<open>A directory with one readable and one corrupt file, an empty directory, and an
  engine that fails on the corrupt file, counts three rows in any other and finds two
  columns.\<close>

definition dir_fs :: fs where
  "dir_fs = \<lparr>fs_exists = (\<lambda>p. True), fs_is_dir = (\<lambda>p. True),
             fs_glob = (\<lambda>p. [asc ''good.parquet'', asc ''bad.parquet'']), fs_cwd = asc ''/work''\<rparr>"

definition empty_dir_fs :: fs where
  "empty_dir_fs = \<lparr>fs_exists = (\<lambda>p. True), fs_is_dir = (\<lambda>p. True),
                   fs_glob = (\<lambda>p. []), fs_cwd = asc ''/work''\<rparr>"

definition corrupt_engine :: engine where
  "corrupt_engine history sql =
     (if contains sql (asc ''bad.parquet'') then
        Inl (Exc DuckDBError (asc ''Invalid Input Error: No magic bytes found at end of file''))
      else if prefix (asc ''SELECT COUNT'') sql then
        Inr \<lparr>rs_rows = [[PInt 3]], rs_description = [(asc ''count_star()'', asc ''BIGINT'')]\<rparr>
      else
        Inr \<lparr>rs_rows = [], rs_description = [(asc ''id'', asc ''BIGINT''), (asc ''name'', asc ''VARCHAR'')]\<rparr>)"

section \<open>Properties of the strings and the estimate\<close>

lemma estimate_is_ceiling:
  "estimate_token_count text = \<lceil>real (length text) / 3\<rceil>"
proof -
  have "\<lceil>real (length text) / 3\<rceil> = \<lceil>real_of_int (int (length text)) / real_of_int 3\<rceil>"
    by simp
  also have "\<dots> = - ((- int (length text)) div 3)"
    by (simp only: ceiling_divide_eq_div)
  also have "\<dots> = (int (length text) + 3 - 1) div 3"
    by presburger
  finally show ?thesis
    by (simp add: estimate_token_count_def)
qed

section \<open>Error categories of the query plugin\<close>

lemma contains_self: "contains (p @ ys) p"
proof (cases "p @ ys")
  case Nil
  then show ?thesis by simp
next
  case (Cons a list)
  have "prefix p (p @ ys)" by simp
  with Cons show ?thesis by simp
qed

lemma contains_app_left: "contains ys p \<Longrightarrow> contains (xs @ ys) p"
  by (induction xs) auto

lemma contains_app_right: "contains xs p \<Longrightarrow> contains (xs @ ys) p"
proof (induction xs)
  case Nil
  then show ?case by (cases ys) auto
next
  case (Cons x xs)
  have "prefix p ((x # xs) @ ys)" if "prefix p (x # xs)"
    using that by (rule prefix_prefix)
  with Cons show ?case by auto
qed

lemma context_query: "contains (error_context query names) (asc ''Query: '' @ query)"
  unfolding error_context_def by (rule contains_self)

lemma context_tables:
  "contains (error_context query names) (asc ''Available tables: '' @ available_tables names)"
  unfolding error_context_def
  by (rule contains_app_left, rule contains_app_left, rule contains_self [of _ "[]", simplified])

lemma query_error_context:
  "contains (error_context query names) p \<Longrightarrow>
   contains (exc_str (query_error error_msg query names)) p"
proof -
  assume c: "contains (error_context query names) p"
  have mid: "contains (h @ error_msg @ [10] @ error_context query names @ t) p" for h t
    by (intro contains_app_left contains_app_right c)
  have last: "contains (h @ error_msg @ [10] @ error_context query names) p" for h
    by (intro contains_app_left c)
  show ?thesis
    unfolding query_error_def
    by (simp only: if_distrib [where f = exc_str] exc.sel mid last if_cancel simp_thms split: if_split)
qed


lemma prefix_app_self: "prefix (h @ m) (h @ m @ t)"
  by simp

lemma query_error_syntax:
  "contains (lower m) (asc ''syntax error'') \<or> contains (lower m) (asc ''parser error'') \<Longrightarrow>
   prefix (asc ''SQL syntax error in query: '' @ m) (exc_str (query_error m q n))"
  unfolding query_error_def by (simp only: if_True exc.sel prefix_app_self)

lemma query_error_table:
  "\<not> (contains (lower m) (asc ''syntax error'') \<or> contains (lower m) (asc ''parser error'')) \<Longrightarrow>
   contains (lower m) (asc ''catalog'') \<or> contains (lower m) (asc ''table'') \<Longrightarrow>
   prefix (asc ''Table reference error: '' @ m) (exc_str (query_error m q n))"
  unfolding query_error_def by (simp only: if_True if_False exc.sel prefix_app_self simp_thms)

lemma query_error_other:
  "\<not> (contains (lower m) (asc ''syntax error'') \<or> contains (lower m) (asc ''parser error'')) \<Longrightarrow>
   \<not> (contains (lower m) (asc ''catalog'') \<or> contains (lower m) (asc ''table'')) \<Longrightarrow>
   prefix (asc ''Query execution failed: '' @ m) (exc_str (query_error m q n))"
  unfolding query_error_def by (simp only: if_True if_False exc.sel prefix_app_self simp_thms)

lemma query_raises:
  assumes v: "validate_parquet_files f parquet_files = Inr files"
    and b: "query_body eng (fs_cwd f) (fst (connect w)) files query limit = (Inl e, payload, table_names)"
  shows "fst (query_parquet_files eng f order w parquet_files query limit)
         = Inl (query_handler e query (order table_names))"
  using v b by (simp add: query_parquet_files_def split_beta)

text \<open>
  C8.  Whatever is raised inside the \<open>try\<close> block of \<open>query_parquet_files\<close> and caught by
  \<open>except Exception\<close> (every engine failure is) is raised again as a \<open>RuntimeError\<close> whose
  text is chosen by looking for keywords in the lower-cased error text: "syntax error" or
  "parser error" gives the SQL-syntax message, and is looked for first; otherwise
  "catalog" or "table" gives the table-reference message; otherwise the generic
  message.  Each of the three begins with its category and the engine's text, and
  contains the query text and the registered table names.
\<close>

theorem query_failure_categorised:
  assumes v: "validate_parquet_files f parquet_files = Inr files"
    and b: "query_body eng (fs_cwd f) (fst (connect w)) files query limit = (Inl e, payload, table_names)"
    and ex: "is_Exception e"
    and nf: "exc_cls e \<noteq> FileNotFoundError"
  shows "\<exists>msg. fst (query_parquet_files eng f order w parquet_files query limit)
                 = Inl (Exc RuntimeError msg)
          \<and> (let m = lower (exc_str e);
                  syn = (contains m (asc ''syntax error'') \<or> contains m (asc ''parser error''));
                  tab = (contains m (asc ''catalog'') \<or> contains m (asc ''table''))
              in (syn \<longrightarrow> prefix (asc ''SQL syntax error in query: '' @ exc_str e) msg)
               \<and> (\<not> syn \<and> tab \<longrightarrow> prefix (asc ''Table reference error: '' @ exc_str e) msg)
               \<and> (\<not> syn \<and> \<not> tab \<longrightarrow> prefix (asc ''Query execution failed: '' @ exc_str e) msg))
          \<and> contains msg (asc ''Query: '' @ query)
          \<and> contains msg (asc ''Available tables: '' @ available_tables (order table_names))"
proof -
  let ?r = "query_error (exc_str e) query (order table_names)"
  have h: "query_handler e query (order table_names) = ?r"
    using ex nf by (simp add: query_handler_def)
  have r: "fst (query_parquet_files eng f order w parquet_files query limit) = Inl ?r"
    using query_raises [OF v b] h by simp
  have cls: "?r = Exc RuntimeError (exc_str ?r)"
    by (simp add: query_error_def)
  have q: "contains (exc_str ?r) (asc ''Query: '' @ query)"
    by (rule query_error_context [OF context_query])
  have t: "contains (exc_str ?r) (asc ''Available tables: '' @ available_tables (order table_names))"
    by (rule query_error_context [OF context_tables])
  have cat: "let m = lower (exc_str e);
                  syn = (contains m (asc ''syntax error'') \<or> contains m (asc ''parser error''));
                  tab = (contains m (asc ''catalog'') \<or> contains m (asc ''table''))
              in (syn \<longrightarrow> prefix (asc ''SQL syntax error in query: '' @ exc_str e) (exc_str ?r))
               \<and> (\<not> syn \<and> tab \<longrightarrow> prefix (asc ''Table reference error: '' @ exc_str e) (exc_str ?r))
               \<and> (\<not> syn \<and> \<not> tab \<longrightarrow> prefix (asc ''Query execution failed: '' @ exc_str e) (exc_str ?r))"
    unfolding Let_def
    by (intro conjI impI query_error_syntax query_error_table query_error_other)
       (simp_all only: simp_thms)
  show ?thesis
    apply (rule exI [of _ "exc_str ?r"])
    apply (intro conjI)
       apply (simp only: r cls [symmetric])
      apply (rule cat)
     apply (rule q)
    apply (rule t)
    done
qed

theorem query_failure_categorised_witness:
  "\<exists>msg. fst (query_parquet_files bad_sql_engine demo_fs (\<lambda>xs. xs) demo_world
                 (One (asc ''sales.parquet'')) (asc ''SELCT * FROM sales'') 10)
           = Inl (Exc RuntimeError msg)
        \<and> prefix (asc ''SQL syntax error in query: ''
                   @ asc ''Parser Error: syntax error at or near SELCT'') msg
        \<and> contains msg (asc ''Query: '' @ asc ''SELCT * FROM sales'')
        \<and> contains msg (asc ''Available tables: '' @ asc ''sales'')"
proof -
  let ?e = "Exc DuckDBError (asc ''Parser Error: syntax error at or near SELCT'')"
  have v: "validate_parquet_files demo_fs (One (asc ''sales.parquet'')) = Inr [asc ''sales.parquet'']"
    by code_simp
  have b: "query_body bad_sql_engine (fs_cwd demo_fs) (fst (connect demo_world))
             [asc ''sales.parquet''] (asc ''SELCT * FROM sales'') 10
           = (Inl ?e, None, [asc ''sales''])"
    by code_simp
  have ex: "is_Exception ?e" by (simp add: is_Exception_def)
  have nf: "exc_cls ?e \<noteq> FileNotFoundError" by simp
  have syn: "contains (lower (exc_str ?e)) (asc ''syntax error'')" by code_simp
  have av: "available_tables [asc ''sales''] = asc ''sales''" by code_simp
  from query_failure_categorised [OF v b ex nf, of "\<lambda>xs. xs"]
  obtain msg where
    m: "fst (query_parquet_files bad_sql_engine demo_fs (\<lambda>xs. xs) demo_world
               (One (asc ''sales.parquet'')) (asc ''SELCT * FROM sales'') 10)
        = Inl (Exc RuntimeError msg)"
    and c: "contains (lower (exc_str ?e)) (asc ''syntax error'')
              \<or> contains (lower (exc_str ?e)) (asc ''parser error'')
            \<longrightarrow> prefix (asc ''SQL syntax error in query: '' @ exc_str ?e) msg"
    and q: "contains msg (asc ''Query: '' @ asc ''SELCT * FROM sales'')"
    and t: "contains msg (asc ''Available tables: '' @ available_tables [asc ''sales''])"
    unfolding Let_def by blast
  from c syn have p: "prefix (asc ''SQL syntax error in query: '' @ exc_str ?e) msg"
    by blast
  show ?thesis
    apply (rule exI [of _ msg])
    apply (intro conjI)
       apply (rule m)
      apply (rule p [unfolded exc.sel])
     apply (rule q)
    apply (rule t [unfolded av])
    done
qed

section \<open>The directory listing\<close>

lemma probe_file_outcome: "fst (probe_file eng w s) = probe_outcome eng s"
  by (simp add: probe_outcome_def probe_file_def connect_def execute_def Let_def
           split: sum.splits option.splits list.splits prod.splits)

lemma probe_failure_is_Exception:
  assumes "raises_only_exceptions eng" and "probe_outcome eng s = Inl e"
  shows "is_Exception e"
  using assms
  by (auto simp: probe_outcome_def probe_file_def connect_def execute_def Let_def
        raises_only_exceptions_def is_Exception_def
        split: sum.splits option.splits list.splits prod.splits)

lemma list_loop_entries:
  assumes "raises_only_exceptions eng"
  shows "fst (list_loop eng cwd w files_info files) = Inr (files_info @ map (entry_for eng cwd) files)"
proof (induction files arbitrary: w files_info)
  case Nil
  show ?case by simp
next
  case (Cons file_path rest)
  let ?s = "normalize_path cwd (path_str file_path)"
  obtain r w' where p: "probe_file eng w ?s = (r, w')" by (cases "probe_file eng w ?s")
  then have r: "r = probe_outcome eng ?s" using probe_file_outcome [of eng w ?s] by simp
  show ?case
  proof (cases r)
    case (Inl e)
    with r assms have "is_Exception e" by (auto intro: probe_failure_is_Exception)
    with Inl p r Cons.IH [of w' "files_info @ [error_entry file_path e]"] show ?thesis
      by (simp add: entry_for_def)
  next
    case (Inr ok)
    obtain rc cc where ok: "ok = (rc, cc)" by (cases ok)
    with Inr p r Cons.IH [of w' "files_info @ [success_entry file_path rc cc]"] show ?thesis
      by (simp add: entry_for_def)
  qed
qed

lemma corrupt_engine_raises_only_exceptions: "raises_only_exceptions corrupt_engine"
  by (simp add: raises_only_exceptions_def corrupt_engine_def is_Exception_def)

text \<open>
  C9.  On an existing directory, with an engine whose failures \<open>except Exception\<close> catches,
  the list \<open>files_info\<close> has one entry per file that \<open>glob\<close> yields, in that order; the call
  returns the budget-enforced JSON text of exactly that list.  The entry of a file whose
  probe fails has \<open>filename\<close>, \<open>path\<close> and \<open>error\<close> and no \<open>row_count\<close>; the entry of a
  file whose probe succeeds has \<open>filename\<close>, \<open>path\<close>, \<open>row_count\<close> and \<open>column_count\<close>
  and no \<open>error\<close>.
\<close>

theorem listing_isolates_failures:
  assumes ex: "fs_exists f d" and dir: "fs_is_dir f d" and eng: "raises_only_exceptions eng"
  shows "(\<exists>result w'.
            list_tables_run eng f w d
              = (result, Some (map (entry_for eng (fs_cwd f)) (glob_parquet f d)), w')
          \<and> result = (case json_dumps (PList (map (entry_for eng (fs_cwd f)) (glob_parquet f d))) of
                        Inl e \<Rightarrow> Inl e
                      | Inr result_json \<Rightarrow>
                          enforce_token_limit_plain result_json (asc ''list_tables_in_directory'')))
       \<and> (\<forall>p e. probe_outcome eng (normalize_path (fs_cwd f) (path_str p)) = Inl e \<longrightarrow>
             field (entry_for eng (fs_cwd f) p) (asc ''filename'') = Some (PStr (path_name p))
           \<and> field (entry_for eng (fs_cwd f) p) (asc ''path'') = Some (PStr (path_str p))
           \<and> field (entry_for eng (fs_cwd f) p) (asc ''error'') = Some (PStr (exc_str e))
           \<and> field (entry_for eng (fs_cwd f) p) (asc ''row_count'') = None)
       \<and> (\<forall>p rc cc. probe_outcome eng (normalize_path (fs_cwd f) (path_str p)) = Inr (rc, cc) \<longrightarrow>
             field (entry_for eng (fs_cwd f) p) (asc ''filename'') = Some (PStr (path_name p))
           \<and> field (entry_for eng (fs_cwd f) p) (asc ''path'') = Some (PStr (path_str p))
           \<and> field (entry_for eng (fs_cwd f) p) (asc ''row_count'') = Some rc
           \<and> field (entry_for eng (fs_cwd f) p) (asc ''column_count'') = Some (PInt (int cc))
           \<and> field (entry_for eng (fs_cwd f) p) (asc ''error'') = None)"
proof (intro conjI)
  let ?files = "glob_parquet f d"
  obtain r w' where l: "list_loop eng (fs_cwd f) w [] ?files = (r, w')"
    by (cases "list_loop eng (fs_cwd f) w [] ?files")
  with list_loop_entries [OF eng, of "fs_cwd f" w "[]" ?files]
  have r: "r = Inr (map (entry_for eng (fs_cwd f)) ?files)" by simp
  show "\<exists>result w'.
           list_tables_run eng f w d
             = (result, Some (map (entry_for eng (fs_cwd f)) (glob_parquet f d)), w')
         \<and> result = (case json_dumps (PList (map (entry_for eng (fs_cwd f)) (glob_parquet f d))) of
                       Inl e \<Rightarrow> Inl e
                     | Inr result_json \<Rightarrow>
                         enforce_token_limit_plain result_json (asc ''list_tables_in_directory''))"
    using ex dir l r by (simp add: list_tables_run_def split: sum.splits)
next
  show "\<forall>p e. probe_outcome eng (normalize_path (fs_cwd f) (path_str p)) = Inl e \<longrightarrow>
           field (entry_for eng (fs_cwd f) p) (asc ''filename'') = Some (PStr (path_name p))
         \<and> field (entry_for eng (fs_cwd f) p) (asc ''path'') = Some (PStr (path_str p))
         \<and> field (entry_for eng (fs_cwd f) p) (asc ''error'') = Some (PStr (exc_str e))
         \<and> field (entry_for eng (fs_cwd f) p) (asc ''row_count'') = None"
    by (simp add: entry_for_def error_entry_def)
next
  show "\<forall>p rc cc. probe_outcome eng (normalize_path (fs_cwd f) (path_str p)) = Inr (rc, cc) \<longrightarrow>
           field (entry_for eng (fs_cwd f) p) (asc ''filename'') = Some (PStr (path_name p))
         \<and> field (entry_for eng (fs_cwd f) p) (asc ''path'') = Some (PStr (path_str p))
         \<and> field (entry_for eng (fs_cwd f) p) (asc ''row_count'') = Some rc
         \<and> field (entry_for eng (fs_cwd f) p) (asc ''column_count'') = Some (PInt (int cc))
         \<and> field (entry_for eng (fs_cwd f) p) (asc ''error'') = None"
    by (simp add: entry_for_def success_entry_def)
qed

theorem listing_isolates_failures_witness:
  "\<exists>result w'.
     list_tables_run corrupt_engine dir_fs \<lparr>next_handle = 0, open_handles = []\<rparr> (asc ''data'')
       = (result,
          Some [success_entry (joinpath (Path (asc ''data'')) (Path (asc ''good.parquet''))) (PInt 3) 2,
                error_entry (joinpath (Path (asc ''data'')) (Path (asc ''bad.parquet'')))
                  (Exc DuckDBError (asc ''Invalid Input Error: No magic bytes found at end of file''))],
          w')"
proof -
  have ex: "fs_exists dir_fs (asc ''data'')" by (simp add: dir_fs_def)
  have dir: "fs_is_dir dir_fs (asc ''data'')" by (simp add: dir_fs_def)
  have entries: "map (entry_for corrupt_engine (fs_cwd dir_fs)) (glob_parquet dir_fs (asc ''data''))
     = [success_entry (joinpath (Path (asc ''data'')) (Path (asc ''good.parquet''))) (PInt 3) 2,
        error_entry (joinpath (Path (asc ''data'')) (Path (asc ''bad.parquet'')))
          (Exc DuckDBError (asc ''Invalid Input Error: No magic bytes found at end of file''))]"
    by code_simp
  from listing_isolates_failures [OF ex dir corrupt_engine_raises_only_exceptions,
       of "\<lparr>next_handle = 0, open_handles = []\<rparr>"]
  show ?thesis unfolding entries by blast
qed

text \<open>
  C10.  On an existing directory in which \<open>glob\<close> finds nothing the plugin raises nothing,
  opens no connection and returns the text \<open>[]\<close>: the encoding of the empty list, two
  characters long, which budget enforcement returns as it is.
\<close>

theorem empty_directory_listing:
  assumes "fs_exists f d" and "fs_is_dir f d" and "fs_glob f d = []"
  shows "list_tables_in_directory eng f w d = (Inr (asc ''[]''), w)
       \<and> json_dumps (PList []) = Inr (asc ''[]'')
       \<and> length (asc ''[]'') = 2
       \<and> enforce_token_limit_plain (asc ''[]'') (asc ''list_tables_in_directory'') = Inr (asc ''[]'')"
proof -
  have d: "json_dumps (PList []) = Inr (asc ''[]'')"
    by (simp add: json_dumps_def)
  have e: "enforce_token_limit_plain (asc ''[]'') (asc ''list_tables_in_directory'') = Inr (asc ''[]'')"
    by (simp add: enforce_token_limit_plain_def enforce_def estimate_token_count_def TOKEN_LIMIT_def)
  have "list_tables_in_directory eng f w d = (Inr (asc ''[]''), w)"
    using assms d e
    by (simp add: list_tables_in_directory_def list_tables_run_def glob_parquet_def)
  with d e show ?thesis by simp
qed

theorem empty_directory_listing_witness:
  "list_tables_in_directory corrupt_engine empty_dir_fs \<lparr>next_handle = 0, open_handles = []\<rparr>
     (asc ''data'')
   = (Inr (asc ''[]''), \<lparr>next_handle = 0, open_handles = []\<rparr>)"
proof -
  have "fs_exists empty_dir_fs (asc ''data'')" "fs_is_dir empty_dir_fs (asc ''data'')"
    "fs_glob empty_dir_fs (asc ''data'') = []"
    by (simp_all add: empty_dir_fs_def)
  from empty_directory_listing [OF this] show ?thesis by blast
qed

section \<open>Connections\<close>

text \<open>The query plugin closes the connection it opened on every path out of the
  \<open>try\<close> statement: the handle it was given is not open afterwards.\<close>

lemma query_closes_its_connection:
  "next_handle w \<notin> set (open_handles (snd (query_parquet_files eng f order w parquet_files query limit)))
   \<or> isl (validate_parquet_files f parquet_files)"
  by (auto simp: query_parquet_files_def connect_def close_def split_beta split: sum.splits)

text \<open>
  C3.  The claim says every plugin closes each connection it opens on every exit path.
  The directory listing does not: \<open>conn.close()\<close> is the last statement inside its
  \<open>try\<close> block and there is no \<open>finally\<close>.  On a directory with a readable and a corrupt
  file the call returns normally and the connection opened for the corrupt file (handle
  1) is still open.
\<close>

theorem listing_leaves_connection_open:
  "\<not> isl (fst (list_tables_in_directory corrupt_engine dir_fs
                  \<lparr>next_handle = 0, open_handles = []\<rparr> (asc ''data'')))
   \<and> open_handles (snd (list_tables_in_directory corrupt_engine dir_fs
                  \<lparr>next_handle = 0, open_handles = []\<rparr> (asc ''data''))) = [1]"
  by code_simp

section \<open>Table names\<close>

lemma name_loop_fresh: "name_loop names b t c \<notin> set names"
proof (induction names b t c rule: name_loop.induct)
  case (1 names b t c)
  show ?case
  proof (cases "t \<in> set names")
    case True
    with 1 show ?thesis by (simp add: name_loop.simps [of names b t c])
  next
    case False
    then show ?thesis by (simp add: name_loop.simps [of names b t c])
  qed
qed

lemma name_loop_least:
  "t \<in> set names \<Longrightarrow>
   name_loop names b t c = suffixed b (LEAST k. c \<le> k \<and> suffixed b k \<notin> set names)"
proof (induction names b t c rule: name_loop.induct)
  case (1 names b t c)
  let ?P = "\<lambda>k. suffixed b k \<notin> set names"
  from 1(2) have step: "name_loop names b t c = name_loop names b (suffixed b c) (c + 1)"
    by (simp add: name_loop.simps [of names b t c])
  show ?case
  proof (cases "?P c")
    case True
    then have "name_loop names b (suffixed b c) (c + 1) = suffixed b c"
      by (simp add: name_loop.simps [of names b "suffixed b c"])
    moreover have "(LEAST k. c \<le> k \<and> ?P k) = c"
      using True by (intro Least_equality) auto
    ultimately show ?thesis using step by simp
  next
    case False
    then have "name_loop names b (suffixed b c) (c + 1)
               = suffixed b (LEAST k. c + 1 \<le> k \<and> ?P k)"
      using 1(1) [OF 1(2)] by simp
    moreover have "(\<lambda>k. c + 1 \<le> k \<and> ?P k) = (\<lambda>k. c \<le> k \<and> ?P k)"
    proof
      fix k
      show "(c + 1 \<le> k \<and> ?P k) = (c \<le> k \<and> ?P k)"
        using False by (cases "k = c") auto
    qed
    ultimately show ?thesis using step by simp
  qed
qed

lemma table_name_for_eq:
  "table_name_for used file_path =
     (let base = stem (Path file_path)
      in if base \<notin> set used then base
         else suffixed base (LEAST k. 1 \<le> k \<and> suffixed base k \<notin> set used))"
proof (cases "stem (Path file_path) \<in> set used")
  case True
  then show ?thesis
    by (simp add: table_name_for_def Let_def name_loop_least)
next
  case False
  then show ?thesis
    by (simp add: table_name_for_def Let_def name_loop.simps [of used "stem (Path file_path)"])
qed

lemma table_name_for_fresh: "table_name_for used file_path \<notin> set used"
  by (simp add: table_name_for_def Let_def name_loop_fresh)

lemma assign_names_length: "length (assign_names tn files) = length tn + length files"
  by (induction files arbitrary: tn) auto

lemma assign_names_distinct: "distinct tn \<Longrightarrow> distinct (assign_names tn files)"
  by (induction files arbitrary: tn) (auto simp: table_name_for_fresh)

lemma assign_names_take: "take (length tn) (assign_names tn files) = tn"
proof (induction files arbitrary: tn)
  case Nil
  show ?case by simp
next
  case (Cons f rest)
  let ?tn' = "tn @ [table_name_for tn f]"
  have "take (length tn) (assign_names ?tn' rest)
        = take (length tn) (take (length ?tn') (assign_names ?tn' rest))"
    by (simp add: min_def)
  also have "\<dots> = take (length tn) ?tn'" by (simp only: Cons.IH)
  finally show ?case by simp
qed

lemma assign_names_nth:
  "i < length files \<Longrightarrow>
   assign_names tn files ! (length tn + i)
     = table_name_for (take (length tn + i) (assign_names tn files)) (files ! i)"
proof (induction files arbitrary: tn i)
  case Nil
  then show ?case by simp
next
  case (Cons f rest)
  let ?x = "table_name_for tn f"
  let ?tn' = "tn @ [?x]"
  show ?case
  proof (cases i)
    case 0
    have t: "take (length ?tn') (assign_names ?tn' rest) = ?tn'" by (rule assign_names_take)
    have "assign_names ?tn' rest ! length tn = take (length ?tn') (assign_names ?tn' rest) ! length tn"
      by simp
    also have "\<dots> = ?x" by (simp only: t) simp
    finally have a: "assign_names ?tn' rest ! length tn = ?x" .
    have "take (length tn) (assign_names ?tn' rest)
          = take (length tn) (take (length ?tn') (assign_names ?tn' rest))"
      by (simp add: min_def)
    also have "\<dots> = tn" by (simp only: t) simp
    finally have b: "take (length tn) (assign_names ?tn' rest) = tn" .
    from 0 a b show ?thesis by simp
  next
    case (Suc j)
    with Cons.prems have "j < length rest" by simp
    from Cons.IH [OF this, of ?tn'] Suc show ?thesis by simp
  qed
qed


lemma assign_names_prefix: "prefix tn (assign_names tn files)"
proof -
  have "prefix (take (length tn) (assign_names tn files)) (assign_names tn files)"
    by (rule take_is_prefix)
  then show ?thesis by (simp only: assign_names_take)
qed

lemma register_views_names:
  "case register_views eng tn conn files of
     (None, names, c) \<Rightarrow> names = assign_names tn files
   | (Some e, names, c) \<Rightarrow> prefix names (assign_names tn files)"
proof (induction files arbitrary: tn conn)
  case Nil
  show ?case by simp
next
  case (Cons f rest)
  let ?x = "table_name_for tn f"
  show ?case
  proof (cases "execute eng conn (create_view_sql ?x f)")
    case (Inl e)
    then show ?thesis by (simp add: Let_def assign_names_prefix)
  next
    case (Inr ok)
    obtain r conn' where ok: "ok = (r, conn')" by (cases ok)
    have eq: "assign_names tn (f # rest) = assign_names (tn @ [?x]) rest" by simp
    have "register_views eng tn conn (f # rest) = register_views eng (tn @ [?x]) conn' rest"
      using Inr ok by (simp add: Let_def)
    with Cons.IH [of "tn @ [?x]" conn'] show ?thesis by (simp only: eq)
  qed
qed

text \<open>
  C6.  The registrar names the files in input order.  Each file gets the stem of its path
  (the last component without its last suffix) if that name is not taken by an earlier
  file of the call, and otherwise the stem followed by \<open>_k\<close> for the least \<open>k\<close> from 1 on
  whose name is not taken.  The names of a call are pairwise distinct; the names that
  \<open>register_views\<close> has recorded are these names, all of them when no view creation fails;
  and the files a.parquet, a.parquet, b.parquet get the names a, a_1, b.
\<close>

theorem registrar_names:
  "length (assign_names [] files) = length files
   \<and> distinct (assign_names [] files)
   \<and> (\<forall>i < length files.
        let base = stem (Path (files ! i)); used = take i (assign_names [] files)
        in assign_names [] files ! i
           = (if base \<notin> set used then base
              else suffixed base (LEAST k. 1 \<le> k \<and> suffixed base k \<notin> set used)))
   \<and> (\<forall>eng conn.
        case register_views eng [] conn files of
          (None, names, c) \<Rightarrow> names = assign_names [] files
        | (Some e, names, c) \<Rightarrow> prefix names (assign_names [] files))
   \<and> assign_names [] [asc ''a.parquet'', asc ''a.parquet'', asc ''b.parquet'']
       = [asc ''a'', asc ''a_1'', asc ''b'']"
proof (intro conjI allI impI)
  show "length (assign_names [] files) = length files"
    by (simp add: assign_names_length)
  show "distinct (assign_names [] files)"
    by (simp add: assign_names_distinct)
  show "let base = stem (Path (files ! i)); used = take i (assign_names [] files)
        in assign_names [] files ! i
           = (if base \<notin> set used then base
              else suffixed base (LEAST k. 1 \<le> k \<and> suffixed base k \<notin> set used))"
    if "i < length files" for i
    using assign_names_nth [OF that, of "[]"] by (simp add: table_name_for_eq Let_def)
  show "case register_views eng [] conn files of
          (None, names, c) \<Rightarrow> names = assign_names [] files
        | (Some e, names, c) \<Rightarrow> prefix names (assign_names [] files)" for eng conn
    by (rule register_views_names)
  show "assign_names [] [asc ''a.parquet'', asc ''a.parquet'', asc ''b.parquet'']
       = [asc ''a'', asc ''a_1'', asc ''b'']"
    by code_simp
qed

theorem registrar_names_witness:
  "(1::nat) < length [asc ''a.parquet'', asc ''a.parquet'', asc ''b.parquet'']
   \<and> assign_names [] [asc ''a.parquet'', asc ''a.parquet'', asc ''b.parquet''] ! 1
       = suffixed (asc ''a'') (LEAST k. 1 \<le> k \<and> suffixed (asc ''a'') k \<notin> set [asc ''a''])"
proof -
  let ?files = "[asc ''a.parquet'', asc ''a.parquet'', asc ''b.parquet'']"
  have i: "(1::nat) < length ?files" by simp
  have b: "stem (Path (?files ! 1)) = asc ''a''" by code_simp
  have u: "take 1 (assign_names [] ?files) = [asc ''a'']" by code_simp
  from registrar_names [of ?files] i
  have "let base = stem (Path (?files ! 1)); used = take 1 (assign_names [] ?files)
        in assign_names [] ?files ! 1
           = (if base \<notin> set used then base
              else suffixed base (LEAST k. 1 \<le> k \<and> suffixed base k \<notin> set used))"
    by blast
  then have "assign_names [] ?files ! 1
       = suffixed (asc ''a'') (LEAST k. 1 \<le> k \<and> suffixed (asc ''a'') k \<notin> set [asc ''a''])"
    unfolding Let_def b u by simp
  with i show ?thesis by blast
qed

end
